theory Spec2Isabelle
  imports Main "HOL-Library.Word"
begin

section \<open>Native handles and the operating system\<close>

text \<open>
  A Win32 \<^verbatim>\<open>HANDLE\<close> is a pointer-sized opaque value and a \<^verbatim>\<open>DWORD\<close>
  (\<^verbatim>\<open>unsigned long\<close>, the type of the literal \<^verbatim>\<open>0UL\<close>) is 32 bits wide.
  The operating system is a record: the chronological list of the handles passed to
  \<^verbatim>\<open>CloseHandle\<close>, and the answer of the process id query for each handle
  (\<open>None\<close> when the query fails).
\<close>

type_synonym native_handle = "64 word"
type_synonym dword = "32 word"
type_synonym process_id_type = dword
type_synonym addr = nat

record os_state =
  closed_handles :: "native_handle list"
  GetProcessId :: "native_handle \<Rightarrow> process_id_type option"

definition CloseHandle :: "os_state \<Rightarrow> native_handle \<Rightarrow> os_state" where
  "CloseHandle os h = os\<lparr>closed_handles := closed_handles os @ [h]\<rparr>"

section \<open>unique_handle\<close>

text \<open>
  Modelled from the spec: the class template \<^verbatim>\<open>unique_handle\<close> and its process and
  thread specialisations are declared in headers that are not among the sources.
  The spec (sections 3, 4.1 and 4.2) gives the contract that is written out here:
  zero is the sentinel that means "no resource"; \<^verbatim>\<open>operator bool\<close> is true iff the
  handle is not that sentinel; \<^verbatim>\<open>reset(native)\<close> closes the handle owned at the
  moment (if any), then stores \<^verbatim>\<open>native\<close>, and returns whether the new handle is
  valid; \<^verbatim>\<open>release()\<close> returns the raw handle and clears the wrapper without
  closing; \<^verbatim>\<open>native_handle()\<close> peeks; equality compares the raw values; the
  destructor closes the handle if one is owned; \<^verbatim>\<open>get_process_id()\<close> is absent
  when the handle is invalid or when the query of the operating system fails.
  The process and thread categories are taken to close every valid handle they own
  (the spec names the exemption of pseudo-handles only as an example of a closing
  policy).
\<close>

definition null_handle :: native_handle where
  "null_handle = 0"

record unique_handle =
  m_handle :: native_handle

definition unique_handle_default :: unique_handle where
  "unique_handle_default = \<lparr>m_handle = null_handle\<rparr>"

definition unique_handle_bool :: "unique_handle \<Rightarrow> bool" where
  "unique_handle_bool u = (m_handle u \<noteq> null_handle)"

definition unique_handle_native_handle :: "unique_handle \<Rightarrow> native_handle" where
  "unique_handle_native_handle u = m_handle u"

definition unique_handle_close :: "unique_handle \<Rightarrow> os_state \<Rightarrow> os_state" where
  "unique_handle_close u os = (if unique_handle_bool u then CloseHandle os (m_handle u) else os)"

definition unique_handle_reset ::
  "unique_handle \<Rightarrow> native_handle \<Rightarrow> os_state \<Rightarrow> bool \<times> unique_handle \<times> os_state" where
  "unique_handle_reset u h os =
     (let os' = unique_handle_close u os;
          u' = u\<lparr>m_handle := h\<rparr>
      in (unique_handle_bool u', u', os'))"

definition unique_handle_release :: "unique_handle \<Rightarrow> native_handle \<times> unique_handle" where
  "unique_handle_release u = (m_handle u, u\<lparr>m_handle := null_handle\<rparr>)"

definition unique_handle_eq :: "unique_handle \<Rightarrow> unique_handle \<Rightarrow> bool" where
  "unique_handle_eq a b = (m_handle a = m_handle b)"

definition unique_handle_get_process_id :: "os_state \<Rightarrow> unique_handle \<Rightarrow> process_id_type option" where
  "unique_handle_get_process_id os u =
     (if unique_handle_bool u then GetProcessId os (m_handle u) else None)"

definition value_or :: "'a option \<Rightarrow> 'a \<Rightarrow> 'a" where
  "value_or x d = (case x of None \<Rightarrow> d | Some v \<Rightarrow> v)"

section \<open>process_information\<close>

text \<open>
  The three data members of the class, in the order of the constructors' initialiser
  lists, the native structure \<^verbatim>\<open>PROCESS_INFORMATION\<close> of the operating system, and
  the decomposed tuple (process id, thread id, raw process handle, raw thread handle).
\<close>

record process_information =
  m_process_thread_id :: dword
  m_process :: unique_handle
  m_process_thread_handle :: unique_handle

record PROCESS_INFORMATION =
  hProcess :: native_handle
  hThread :: native_handle
  dwProcessId :: dword
  dwThreadId :: dword

type_synonym deconstruct_type = "process_id_type \<times> dword \<times> native_handle \<times> native_handle"

text \<open>The default constructor and the constructor from a native structure.\<close>

definition process_information_default :: process_information where
  "process_information_default =
     \<lparr>m_process_thread_id = 0,
      m_process = unique_handle_default,
      m_process_thread_handle = unique_handle_default\<rparr>"

definition process_information_from_native :: "PROCESS_INFORMATION \<Rightarrow> process_information" where
  "process_information_from_native s =
     \<lparr>m_process_thread_id = dwThreadId s,
      m_process = \<lparr>m_handle = hProcess s\<rparr>,
      m_process_thread_handle = \<lparr>m_handle = hThread s\<rparr>\<rparr>"

text \<open>The observers.\<close>

definition operator_bool :: "process_information \<Rightarrow> bool" where
  "operator_bool p =
     (unique_handle_bool (m_process p) \<and> unique_handle_bool (m_process_thread_handle p))"

definition get_native_process_handle :: "process_information \<Rightarrow> native_handle" where
  "get_native_process_handle p = unique_handle_native_handle (m_process p)"

definition get_native_process_thread_handle :: "process_information \<Rightarrow> native_handle" where
  "get_native_process_thread_handle p = unique_handle_native_handle (m_process_thread_handle p)"

definition get_native_process_thread_id :: "process_information \<Rightarrow> dword" where
  "get_native_process_thread_id p = m_process_thread_id p"

definition get_process_id :: "os_state \<Rightarrow> process_information \<Rightarrow> process_id_type option" where
  "get_process_id os p = unique_handle_get_process_id os (m_process p)"

definition native_handle :: "os_state \<Rightarrow> process_information \<Rightarrow> PROCESS_INFORMATION" where
  "native_handle os p =
     \<lparr>hProcess = unique_handle_native_handle (m_process p),
      hThread = unique_handle_native_handle (m_process_thread_handle p),
      dwProcessId =
        (if unique_handle_bool (m_process p)
         then value_or (unique_handle_get_process_id os (m_process p)) 0
         else 0),
      dwThreadId = m_process_thread_id p\<rparr>"

text \<open>
  \<^verbatim>\<open>close()\<close>: guarded by \<^verbatim>\<open>operator bool\<close>; inside the guard the thread id is
  zeroed and both members are reset to the default argument of their \<^verbatim>\<open>reset\<close>,
  the invalid handle.
\<close>

definition close :: "process_information \<Rightarrow> os_state \<Rightarrow> process_information \<times> os_state" where
  "close p os =
     (if operator_bool p then
        (let p1 = p\<lparr>m_process_thread_id := 0\<rparr>
         in (case unique_handle_reset (m_process p1) null_handle os of
               (_, mp, os1) \<Rightarrow>
                 (let p2 = p1\<lparr>m_process := mp\<rparr>
                  in (case unique_handle_reset (m_process_thread_handle p2) null_handle os1 of
                        (_, mt, os2) \<Rightarrow> (p2\<lparr>m_process_thread_handle := mt\<rparr>, os2)))))
      else (p, os))"

text \<open>
  \<^verbatim>\<open>release()\<close>. The four arguments of \<^verbatim>\<open>std::make_tuple\<close> are evaluated in an
  order the language leaves open, and the first one queries the process handle that the
  third one releases: \<open>id_first\<close> says whether the query comes before the release.
\<close>

definition release ::
  "bool \<Rightarrow> os_state \<Rightarrow> process_information \<Rightarrow> deconstruct_type \<times> process_information" where
  "release id_first os p =
     (case unique_handle_release (m_process p) of
        (process_handle, mp) \<Rightarrow>
          (case unique_handle_release (m_process_thread_handle p) of
             (process_thread_handle, mt) \<Rightarrow>
               ((value_or (unique_handle_get_process_id os (if id_first then m_process p else mp)) 0,
                 m_process_thread_id p, process_handle, process_thread_handle),
                p\<lparr>m_process := mp, m_process_thread_handle := mt, m_process_thread_id := 0\<rparr>)))"

text \<open>
  The comparison operators against a native structure and against a decomposed tuple
  (\<^verbatim>\<open>std::get<1>\<close>, \<^verbatim>\<open>std::get<2>\<close> and \<^verbatim>\<open>std::get<3>\<close> of it), in both
  argument orders.
\<close>

definition operator_eq_pi_native :: "process_information \<Rightarrow> PROCESS_INFORMATION \<Rightarrow> bool" where
  "operator_eq_pi_native lhs rhs =
     (m_process_thread_id lhs = dwThreadId rhs \<and>
      unique_handle_native_handle (m_process lhs) = hProcess rhs \<and>
      unique_handle_native_handle (m_process_thread_handle lhs) = hThread rhs)"

definition operator_ne_pi_native :: "process_information \<Rightarrow> PROCESS_INFORMATION \<Rightarrow> bool" where
  "operator_ne_pi_native lhs rhs = (\<not> operator_eq_pi_native lhs rhs)"

definition operator_eq_native_pi :: "PROCESS_INFORMATION \<Rightarrow> process_information \<Rightarrow> bool" where
  "operator_eq_native_pi lhs rhs = operator_eq_pi_native rhs lhs"

definition operator_ne_native_pi :: "PROCESS_INFORMATION \<Rightarrow> process_information \<Rightarrow> bool" where
  "operator_ne_native_pi lhs rhs = (\<not> operator_eq_native_pi lhs rhs)"

definition operator_eq_pi_tuple :: "process_information \<Rightarrow> deconstruct_type \<Rightarrow> bool" where
  "operator_eq_pi_tuple lhs rhs =
     (case rhs of (get0, get1, get2, get3) \<Rightarrow>
        m_process_thread_id lhs = get1 \<and>
        unique_handle_native_handle (m_process lhs) = get2 \<and>
        unique_handle_native_handle (m_process_thread_handle lhs) = get3)"

definition operator_ne_pi_tuple :: "process_information \<Rightarrow> deconstruct_type \<Rightarrow> bool" where
  "operator_ne_pi_tuple lhs rhs = (\<not> operator_eq_pi_tuple lhs rhs)"

definition operator_eq_tuple_pi :: "deconstruct_type \<Rightarrow> process_information \<Rightarrow> bool" where
  "operator_eq_tuple_pi lhs rhs = operator_eq_pi_tuple rhs lhs"

definition operator_ne_tuple_pi :: "deconstruct_type \<Rightarrow> process_information \<Rightarrow> bool" where
  "operator_ne_tuple_pi lhs rhs = (\<not> operator_eq_tuple_pi lhs rhs)"

text \<open>
  The two overloads of \<^verbatim>\<open>reset\<close>. Each returns the result of \<^verbatim>\<open>operator bool\<close>,
  the object and the operating system.
\<close>

definition reset_deconstructed ::
  "process_information \<Rightarrow> deconstruct_type \<Rightarrow> os_state \<Rightarrow> bool \<times> process_information \<times> os_state" where
  "reset_deconstructed p deconstructed os =
     (if operator_eq_pi_tuple p deconstructed then (operator_bool p, p, os)
      else
        (case close p os of
           (p1, os1) \<Rightarrow>
             (case deconstructed of
                (process_id, process_thread_id, process_handle, process_thread_handle) \<Rightarrow>
                  (let p2 = p1\<lparr>m_process_thread_id := process_thread_id\<rparr>
                   in (case unique_handle_reset (m_process p2) process_handle os1 of
                         (_, mp, os2) \<Rightarrow>
                           (let p3 = p2\<lparr>m_process := mp\<rparr>
                            in (case unique_handle_reset (m_process_thread_handle p3)
                                       process_thread_handle os2 of
                                  (_, mt, os3) \<Rightarrow>
                                    (let p4 = p3\<lparr>m_process_thread_handle := mt\<rparr>
                                     in (operator_bool p4, p4, os3)))))))))"

definition reset_native ::
  "process_information \<Rightarrow> PROCESS_INFORMATION \<Rightarrow> os_state \<Rightarrow> bool \<times> process_information \<times> os_state" where
  "reset_native p handle os =
     (if operator_eq_pi_native p handle then (operator_bool p, p, os)
      else
        (case close p os of
           (p1, os1) \<Rightarrow>
             (let p2 = p1\<lparr>m_process_thread_id := dwThreadId handle\<rparr>
              in (case unique_handle_reset (m_process p2) (hProcess handle) os1 of
                    (_, mp, os2) \<Rightarrow>
                      (let p3 = p2\<lparr>m_process := mp\<rparr>
                       in (case unique_handle_reset (m_process_thread_handle p3)
                                  (hThread handle) os2 of
                             (_, mt, os3) \<Rightarrow>
                               (let p4 = p3\<lparr>m_process_thread_handle := mt\<rparr>
                                in (operator_bool p4, p4, os3))))))))"

text \<open>
  The same two functions, statement by statement: the list of the states (object and
  operating system) at entry and after each statement of the branch taken, that is,
  after \<^verbatim>\<open>close()\<close>, after the assignment of the thread id, after the reset of the
  process member and after the reset of the thread member. When the comparison
  succeeds the list holds the entry state alone.
\<close>

definition reset_deconstructed_trace ::
  "process_information \<Rightarrow> deconstruct_type \<Rightarrow> os_state \<Rightarrow> (process_information \<times> os_state) list" where
  "reset_deconstructed_trace p deconstructed os =
     (if operator_eq_pi_tuple p deconstructed then [(p, os)]
      else
        (case close p os of
           (p1, os1) \<Rightarrow>
             (case deconstructed of
                (process_id, process_thread_id, process_handle, process_thread_handle) \<Rightarrow>
                  (let p2 = p1\<lparr>m_process_thread_id := process_thread_id\<rparr>
                   in (case unique_handle_reset (m_process p2) process_handle os1 of
                         (_, mp, os2) \<Rightarrow>
                           (let p3 = p2\<lparr>m_process := mp\<rparr>
                            in (case unique_handle_reset (m_process_thread_handle p3)
                                       process_thread_handle os2 of
                                  (_, mt, os3) \<Rightarrow>
                                    (let p4 = p3\<lparr>m_process_thread_handle := mt\<rparr>
                                     in [(p, os), (p1, os1), (p2, os1), (p3, os2),
                                         (p4, os3)]))))))))"

definition reset_native_trace ::
  "process_information \<Rightarrow> PROCESS_INFORMATION \<Rightarrow> os_state \<Rightarrow> (process_information \<times> os_state) list" where
  "reset_native_trace p handle os =
     (if operator_eq_pi_native p handle then [(p, os)]
      else
        (case close p os of
           (p1, os1) \<Rightarrow>
             (let p2 = p1\<lparr>m_process_thread_id := dwThreadId handle\<rparr>
              in (case unique_handle_reset (m_process p2) (hProcess handle) os1 of
                    (_, mp, os2) \<Rightarrow>
                      (let p3 = p2\<lparr>m_process := mp\<rparr>
                       in (case unique_handle_reset (m_process_thread_handle p3)
                                  (hThread handle) os2 of
                             (_, mt, os3) \<Rightarrow>
                               (let p4 = p3\<lparr>m_process_thread_handle := mt\<rparr>
                                in [(p, os), (p1, os1), (p2, os1), (p3, os2),
                                    (p4, os3)])))))))"

section \<open>Two objects: references, temporaries and the stack\<close>

text \<open>
  The operations on two process_information objects take references that may name the
  same object, so the objects live in a store, from addresses to values. A machine is
  the operating system, the store and the first unused address of the stack, where a
  local object is constructed.
\<close>

type_synonym store = "addr \<Rightarrow> process_information"

record machine =
  system :: os_state
  objects :: store
  stack_top :: addr

text \<open>
  \<^verbatim>\<open>operator==\<close> on two objects: the identity of the addresses, or else the three
  members, the handles compared by the equality of the wrapper.
\<close>

definition operator_eq_pi_pi :: "store \<Rightarrow> addr \<Rightarrow> addr \<Rightarrow> bool" where
  "operator_eq_pi_pi s lhs rhs =
     (lhs = rhs \<or>
      m_process_thread_id (s lhs) = m_process_thread_id (s rhs) \<and>
      unique_handle_eq (m_process (s lhs)) (m_process (s rhs)) \<and>
      unique_handle_eq (m_process_thread_handle (s lhs)) (m_process_thread_handle (s rhs)))"

definition operator_ne_pi_pi :: "store \<Rightarrow> addr \<Rightarrow> addr \<Rightarrow> bool" where
  "operator_ne_pi_pi s lhs rhs = (\<not> operator_eq_pi_pi s lhs rhs)"

text \<open>
  The free function \<^verbatim>\<open>swap\<close> of the namespace: three member-wise exchanges, one after
  the other, each reading the store the one before left.
\<close>

definition swap :: "store \<Rightarrow> addr \<Rightarrow> addr \<Rightarrow> store" where
  "swap s lhs rhs =
     (let s1 = s(lhs := (s lhs)\<lparr>m_process_thread_id := m_process_thread_id (s rhs)\<rparr>,
                 rhs := (s rhs)\<lparr>m_process_thread_id := m_process_thread_id (s lhs)\<rparr>);
          s2 = s1(lhs := (s1 lhs)\<lparr>m_process := m_process (s1 rhs)\<rparr>,
                  rhs := (s1 rhs)\<lparr>m_process := m_process (s1 lhs)\<rparr>);
          s3 = s2(lhs := (s2 lhs)\<lparr>m_process_thread_handle := m_process_thread_handle (s2 rhs)\<rparr>,
                  rhs := (s2 rhs)\<lparr>m_process_thread_handle := m_process_thread_handle (s2 lhs)\<rparr>)
      in s3)"

text \<open>
  The move constructor builds the object at \<open>this\<close>: its two handle members start
  default-constructed, \<open>other\<close> is released, and the released thread id and handles
  are stored.
\<close>

definition move_construct :: "bool \<Rightarrow> machine \<Rightarrow> addr \<Rightarrow> addr \<Rightarrow> machine" where
  "move_construct id_first m this other =
     (case release id_first (system m) (objects m other) of
        ((process_id, process_thread_id, process_handle, process_thread_handle), other') \<Rightarrow>
          (case unique_handle_reset unique_handle_default process_handle (system m) of
             (_, mp, os1) \<Rightarrow>
               (case unique_handle_reset unique_handle_default process_thread_handle os1 of
                  (_, mt, os2) \<Rightarrow>
                    m\<lparr>system := os2,
                      objects := (objects m)
                        (other := other',
                         this := \<lparr>m_process_thread_id = process_thread_id,
                                  m_process = mp, m_process_thread_handle = mt\<rparr>)\<rparr>)))"

text \<open>
  The destructor calls \<^verbatim>\<open>close()\<close>; then the members are destroyed, the last one
  first, each closing the handle it still owns.
\<close>

definition destructor :: "machine \<Rightarrow> addr \<Rightarrow> machine" where
  "destructor m this =
     (case close (objects m this) (system m) of
        (p1, os1) \<Rightarrow>
          m\<lparr>system := unique_handle_close (m_process p1)
                     (unique_handle_close (m_process_thread_handle p1) os1),
            objects := (objects m)(this := p1)\<rparr>)"

text \<open>
  Move assignment. After the comparison it calls \<^verbatim>\<open>std::swap(*this, other)\<close>, with the
  qualified name: that is the function template of the standard library, which moves
  its first argument into a local \<open>tmp\<close>, move-assigns the second to the first and
  \<open>tmp\<close> to the second, and destroys \<open>tmp\<close>. It is not the free function \<open>swap\<close>
  above, which only an unqualified call would find. The two functions call each
  other, so both take fuel, the depth of calls they may still make; \<open>None\<close> is a call
  that has not returned within it.
\<close>

fun operator_assign :: "nat \<Rightarrow> bool \<Rightarrow> machine \<Rightarrow> addr \<Rightarrow> addr \<Rightarrow> machine option"
  and std_swap :: "nat \<Rightarrow> bool \<Rightarrow> machine \<Rightarrow> addr \<Rightarrow> addr \<Rightarrow> machine option" where
  "operator_assign 0 id_first m this other = None"
| "operator_assign (Suc fuel) id_first m this other =
     (if operator_eq_pi_pi (objects m) this other then Some m
      else std_swap fuel id_first m this other)"
| "std_swap fuel id_first m a b =
     (let tmp = stack_top m;
          m1 = move_construct id_first (m\<lparr>stack_top := Suc tmp\<rparr>) tmp a
      in (case operator_assign fuel id_first m1 a b of
            None \<Rightarrow> None
          | Some m2 \<Rightarrow>
              (case operator_assign fuel id_first m2 b tmp of
                 None \<Rightarrow> None
               | Some m3 \<Rightarrow> Some ((destructor m3 tmp)\<lparr>stack_top := tmp\<rparr>))))"

section \<open>Timers\<close>

text \<open>
  Modelled from the spec: the class templates \<^verbatim>\<open>delayed_callback\<close> and
  \<^verbatim>\<open>synchronization_timer\<close> are declared in a header that is not among the sources;
  only their tests are. The spec (section 4.5) gives \<^verbatim>\<open>start(due_time, period)\<close>:
  it validates \<open>due_time \<ge> 0\<close> and fails with an invalid-argument condition carrying
  the message "due_time must be greater than or equal to zero" if violated; it then
  validates \<open>period \<ge> 0\<close> and fails with "period must be greater than or equal to
  zero" if violated; on success the timer is armed with both durations. The
  synchronization timer has the same contract. Durations are counts of milliseconds.
\<close>

datatype start_error = invalid_argument string

datatype timer_state = idle | started int int

definition delayed_callback_start :: "timer_state \<Rightarrow> int \<Rightarrow> int \<Rightarrow> start_error + timer_state" where
  "delayed_callback_start t due_time period =
     (if due_time < 0 then
        Inl (invalid_argument ''due_time must be greater than or equal to zero'')
      else if period < 0 then
        Inl (invalid_argument ''period must be greater than or equal to zero'')
      else Inr (started due_time period))"

definition synchronization_timer_start :: "timer_state \<Rightarrow> int \<Rightarrow> int \<Rightarrow> start_error + timer_state" where
  "synchronization_timer_start t due_time period =
     (if due_time < 0 then
        Inl (invalid_argument ''due_time must be greater than or equal to zero'')
      else if period < 0 then
        Inl (invalid_argument ''period must be greater than or equal to zero'')
      else Inr (started due_time period))"

section \<open>Lemmas about the handle wrapper\<close>

lemma unique_handle_bool_default [simp]: "\<not> unique_handle_bool unique_handle_default"
  by (simp add: unique_handle_bool_def unique_handle_default_def)

lemma unique_handle_reset_null:
  "unique_handle_reset u null_handle os =
     (False, unique_handle_default, unique_handle_close u os)"
  by (simp add: unique_handle_reset_def Let_def unique_handle_bool_def unique_handle_default_def)

lemma unique_handle_reset_invalid:
  "\<not> unique_handle_bool u \<Longrightarrow>
     unique_handle_reset u h os = (h \<noteq> null_handle, \<lparr>m_handle = h\<rparr>, os)"
  by (simp add: unique_handle_reset_def Let_def unique_handle_bool_def unique_handle_close_def)

lemma close_valid:
  "operator_bool p \<Longrightarrow>
     close p os =
       (process_information_default,
        os\<lparr>closed_handles := closed_handles os @
              [get_native_process_handle p, get_native_process_thread_handle p]\<rparr>)"
  by (simp add: close_def operator_bool_def unique_handle_reset_null unique_handle_close_def
      CloseHandle_def process_information_default_def get_native_process_handle_def
      get_native_process_thread_handle_def unique_handle_native_handle_def)

lemma close_not_valid: "\<not> operator_bool p \<Longrightarrow> close p os = (p, os)"
  by (simp add: close_def)

lemma operator_bool_default [simp]: "\<not> operator_bool process_information_default"
  by (simp add: operator_bool_def process_information_default_def)

lemmas handle_defs = unique_handle_bool_def unique_handle_native_handle_def
  unique_handle_eq_def unique_handle_close_def unique_handle_release_def
  unique_handle_reset_def unique_handle_default_def

lemma process_information_rebuild:
  "\<lparr>m_process_thread_id = m_process_thread_id p,
     m_process = \<lparr>m_handle = m_handle (m_process p)\<rparr>,
     m_process_thread_handle = \<lparr>m_handle = m_handle (m_process_thread_handle p)\<rparr>\<rparr> = p"
  by simp

lemma process_information_cleared:
  "p\<lparr>m_process := (m_process p)\<lparr>m_handle := null_handle\<rparr>,
     m_process_thread_handle := (m_process_thread_handle p)\<lparr>m_handle := null_handle\<rparr>,
     m_process_thread_id := 0\<rparr> = process_information_default"
  by (simp add: process_information_default_def unique_handle_default_def)

section \<open>Validity\<close>

text \<open>
  C7: \<^verbatim>\<open>operator bool()\<close> of a process_information is true if and only if both the
  owned process handle and the owned thread handle are valid, that is, neither raw
  handle is the invalid sentinel.
\<close>

theorem operator_bool_iff_both_valid:
  "operator_bool p =
     (unique_handle_bool (m_process p) \<and> unique_handle_bool (m_process_thread_handle p))
   \<and> operator_bool p =
     (get_native_process_handle p \<noteq> null_handle \<and>
      get_native_process_thread_handle p \<noteq> null_handle)"
  by (simp add: operator_bool_def unique_handle_bool_def get_native_process_handle_def
      get_native_process_thread_handle_def unique_handle_native_handle_def)

theorem operator_bool_iff_both_valid_witness:
  "operator_bool \<lparr>m_process_thread_id = 7, m_process = \<lparr>m_handle = 5\<rparr>,
                  m_process_thread_handle = \<lparr>m_handle = 6\<rparr>\<rparr>
   \<and> \<not> operator_bool \<lparr>m_process_thread_id = 7, m_process = \<lparr>m_handle = 5\<rparr>,
                  m_process_thread_handle = \<lparr>m_handle = 0\<rparr>\<rparr>"
  using operator_bool_iff_both_valid
    [of "\<lparr>m_process_thread_id = 7, m_process = \<lparr>m_handle = 5\<rparr>,
          m_process_thread_handle = \<lparr>m_handle = 6\<rparr>\<rparr>"]
    operator_bool_iff_both_valid
    [of "\<lparr>m_process_thread_id = 7, m_process = \<lparr>m_handle = 5\<rparr>,
          m_process_thread_handle = \<lparr>m_handle = 0\<rparr>\<rparr>"]
  by (simp add: unique_handle_bool_def null_handle_def)

section \<open>Closing\<close>

text \<open>
  C1: on an object whose \<^verbatim>\<open>operator bool()\<close> is true, \<^verbatim>\<open>close()\<close> zeroes the
  thread id, closes the process handle and the thread handle (one \<^verbatim>\<open>CloseHandle\<close>
  each, in this order) and leaves both members invalid; on an object that is already
  empty it changes neither the object nor the operating system; and a second
  \<^verbatim>\<open>close()\<close> right after a first one finds \<^verbatim>\<open>operator bool()\<close> false, changes
  nothing and closes no handle again.
\<close>

theorem close_idempotent:
  "(operator_bool p \<longrightarrow>
      close p os =
        (\<lparr>m_process_thread_id = 0, m_process = \<lparr>m_handle = null_handle\<rparr>,
          m_process_thread_handle = \<lparr>m_handle = null_handle\<rparr>\<rparr>,
         os\<lparr>closed_handles := closed_handles os @
               [get_native_process_handle p, get_native_process_thread_handle p]\<rparr>))
   \<and> (\<not> operator_bool p \<longrightarrow> close p os = (p, os))
   \<and> (case close p os of (p1, os1) \<Rightarrow>
         \<not> operator_bool p1 \<and> close p1 os1 = (p1, os1) \<and>
         closed_handles (snd (close p1 os1)) = closed_handles os1)"
proof (cases "operator_bool p")
  case True
  have d: "process_information_default =
      \<lparr>m_process_thread_id = 0, m_process = \<lparr>m_handle = null_handle\<rparr>,
        m_process_thread_handle = \<lparr>m_handle = null_handle\<rparr>\<rparr>"
    by (simp add: process_information_default_def unique_handle_default_def)
  have e: "\<And>os'. close process_information_default os' = (process_information_default, os')"
    by (simp add: close_not_valid)
  from True show ?thesis
    unfolding d [symmetric] by (simp add: close_valid e)
next
  case False
  then show ?thesis
    by (simp add: close_not_valid)
qed

theorem close_idempotent_witness:
  "close \<lparr>m_process_thread_id = 7, m_process = \<lparr>m_handle = 5\<rparr>,
          m_process_thread_handle = \<lparr>m_handle = 6\<rparr>\<rparr>
         \<lparr>closed_handles = [], GetProcessId = (\<lambda>h. None)\<rparr>
   = (\<lparr>m_process_thread_id = 0, m_process = \<lparr>m_handle = 0\<rparr>,
       m_process_thread_handle = \<lparr>m_handle = 0\<rparr>\<rparr>,
      \<lparr>closed_handles = [5, 6], GetProcessId = (\<lambda>h. None)\<rparr>)
   \<and> close \<lparr>m_process_thread_id = 0, m_process = \<lparr>m_handle = 0\<rparr>,
             m_process_thread_handle = \<lparr>m_handle = 0\<rparr>\<rparr>
            \<lparr>closed_handles = [5, 6], GetProcessId = (\<lambda>h. None)\<rparr>
   = (\<lparr>m_process_thread_id = 0, m_process = \<lparr>m_handle = 0\<rparr>,
       m_process_thread_handle = \<lparr>m_handle = 0\<rparr>\<rparr>,
      \<lparr>closed_handles = [5, 6], GetProcessId = (\<lambda>h. None)\<rparr>)"
  using close_idempotent
    [of "\<lparr>m_process_thread_id = 7, m_process = \<lparr>m_handle = 5\<rparr>,
          m_process_thread_handle = \<lparr>m_handle = 6\<rparr>\<rparr>"
        "\<lparr>closed_handles = [], GetProcessId = (\<lambda>h. None)\<rparr>"]
  by (auto simp add: operator_bool_def unique_handle_bool_def null_handle_def
      get_native_process_handle_def get_native_process_thread_handle_def
      unique_handle_native_handle_def)

text \<open>
  C10: whenever \<^verbatim>\<open>operator bool()\<close> is false, also when exactly one of the two
  handles is valid, \<^verbatim>\<open>close()\<close> returns the object with every field unchanged and
  passes no handle to \<^verbatim>\<open>CloseHandle\<close>: the handle that is still valid stays owned
  and the thread id keeps its value.
\<close>

theorem close_frame_when_not_valid:
  assumes "\<not> operator_bool p"
  shows "fst (close p os) = p
       \<and> snd (close p os) = os
       \<and> m_process_thread_id (fst (close p os)) = m_process_thread_id p
       \<and> get_native_process_handle (fst (close p os)) = get_native_process_handle p
       \<and> get_native_process_thread_handle (fst (close p os)) = get_native_process_thread_handle p
       \<and> closed_handles (snd (close p os)) = closed_handles os"
  using assms by (simp add: close_not_valid)

theorem close_frame_when_not_valid_witness:
  "\<not> operator_bool \<lparr>m_process_thread_id = 7, m_process = \<lparr>m_handle = 5\<rparr>,
                    m_process_thread_handle = \<lparr>m_handle = 0\<rparr>\<rparr>
   \<and> close \<lparr>m_process_thread_id = 7, m_process = \<lparr>m_handle = 5\<rparr>,
             m_process_thread_handle = \<lparr>m_handle = 0\<rparr>\<rparr>
            \<lparr>closed_handles = [], GetProcessId = (\<lambda>h. None)\<rparr>
     = (\<lparr>m_process_thread_id = 7, m_process = \<lparr>m_handle = 5\<rparr>,
         m_process_thread_handle = \<lparr>m_handle = 0\<rparr>\<rparr>,
        \<lparr>closed_handles = [], GetProcessId = (\<lambda>h. None)\<rparr>)"
proof -
  have h: "\<not> operator_bool \<lparr>m_process_thread_id = 7, m_process = \<lparr>m_handle = 5\<rparr>,
                    m_process_thread_handle = \<lparr>m_handle = 0\<rparr>\<rparr>"
    by (simp add: operator_bool_def unique_handle_bool_def null_handle_def)
  show ?thesis
    using h close_frame_when_not_valid [OF h, of "\<lparr>closed_handles = [], GetProcessId = (\<lambda>h. None)\<rparr>"]
    by (simp add: prod_eq_iff)
qed

section \<open>Comparison\<close>

text \<open>
  C4: equality and inequality are defined in both argument orders against another
  process_information, against a native structure and against a decomposed tuple.
  In each of the six directions the equality holds exactly when the triples
  (thread id, raw process handle, raw thread handle) of the two sides are equal, and
  the inequality exactly when they differ. The process id takes no part: the
  \<^verbatim>\<open>dwProcessId\<close> field of the structure and the first component of the tuple can be
  replaced by any value without changing the result, and two objects are compared
  without any query of the operating system.
\<close>

theorem comparisons_by_triple:
  "operator_eq_pi_pi s a b =
     ((get_native_process_thread_id (s a), get_native_process_handle (s a),
       get_native_process_thread_handle (s a)) =
      (get_native_process_thread_id (s b), get_native_process_handle (s b),
       get_native_process_thread_handle (s b)))
   \<and> operator_ne_pi_pi s a b =
     ((get_native_process_thread_id (s a), get_native_process_handle (s a),
       get_native_process_thread_handle (s a)) \<noteq>
      (get_native_process_thread_id (s b), get_native_process_handle (s b),
       get_native_process_thread_handle (s b)))
   \<and> operator_eq_pi_native p n =
     ((get_native_process_thread_id p, get_native_process_handle p,
       get_native_process_thread_handle p) = (dwThreadId n, hProcess n, hThread n))
   \<and> operator_ne_pi_native p n =
     ((get_native_process_thread_id p, get_native_process_handle p,
       get_native_process_thread_handle p) \<noteq> (dwThreadId n, hProcess n, hThread n))
   \<and> operator_eq_native_pi n p =
     ((dwThreadId n, hProcess n, hThread n) =
      (get_native_process_thread_id p, get_native_process_handle p,
       get_native_process_thread_handle p))
   \<and> operator_ne_native_pi n p =
     ((dwThreadId n, hProcess n, hThread n) \<noteq>
      (get_native_process_thread_id p, get_native_process_handle p,
       get_native_process_thread_handle p))
   \<and> operator_eq_pi_tuple p (process_id, thread_id, process_handle, thread_handle) =
     ((get_native_process_thread_id p, get_native_process_handle p,
       get_native_process_thread_handle p) = (thread_id, process_handle, thread_handle))
   \<and> operator_ne_pi_tuple p (process_id, thread_id, process_handle, thread_handle) =
     ((get_native_process_thread_id p, get_native_process_handle p,
       get_native_process_thread_handle p) \<noteq> (thread_id, process_handle, thread_handle))
   \<and> operator_eq_tuple_pi (process_id, thread_id, process_handle, thread_handle) p =
     ((thread_id, process_handle, thread_handle) =
      (get_native_process_thread_id p, get_native_process_handle p,
       get_native_process_thread_handle p))
   \<and> operator_ne_tuple_pi (process_id, thread_id, process_handle, thread_handle) p =
     ((thread_id, process_handle, thread_handle) \<noteq>
      (get_native_process_thread_id p, get_native_process_handle p,
       get_native_process_thread_handle p))
   \<and> operator_eq_pi_native p (n\<lparr>dwProcessId := other_id\<rparr>) = operator_eq_pi_native p n
   \<and> operator_eq_pi_tuple p (other_id, thread_id, process_handle, thread_handle) =
       operator_eq_pi_tuple p (process_id, thread_id, process_handle, thread_handle)"
  unfolding operator_eq_pi_pi_def operator_ne_pi_pi_def operator_eq_pi_native_def
    operator_ne_pi_native_def operator_eq_native_pi_def operator_ne_native_pi_def
    operator_eq_pi_tuple_def operator_ne_pi_tuple_def operator_eq_tuple_pi_def
    operator_ne_tuple_pi_def get_native_process_thread_id_def get_native_process_handle_def
    get_native_process_thread_handle_def unique_handle_native_handle_def unique_handle_eq_def
  by auto

theorem comparisons_by_triple_witness:
  "operator_eq_pi_native
     \<lparr>m_process_thread_id = 7, m_process = \<lparr>m_handle = 5\<rparr>,
       m_process_thread_handle = \<lparr>m_handle = 6\<rparr>\<rparr>
     \<lparr>hProcess = 5, hThread = 6, dwProcessId = 99, dwThreadId = 7\<rparr>
   \<and> operator_eq_tuple_pi (42, 7, 5, 6)
     \<lparr>m_process_thread_id = 7, m_process = \<lparr>m_handle = 5\<rparr>,
       m_process_thread_handle = \<lparr>m_handle = 6\<rparr>\<rparr>
   \<and> operator_ne_pi_pi
     ((\<lambda>a. process_information_default)
        (0 := \<lparr>m_process_thread_id = 7, m_process = \<lparr>m_handle = 5\<rparr>,
                m_process_thread_handle = \<lparr>m_handle = 6\<rparr>\<rparr>)) 0 1
   \<and> operator_eq_pi_pi
     ((\<lambda>a. process_information_default)
        (0 := \<lparr>m_process_thread_id = 7, m_process = \<lparr>m_handle = 5\<rparr>,
                m_process_thread_handle = \<lparr>m_handle = 6\<rparr>\<rparr>)) 1 2"
  using comparisons_by_triple
    [where s = "(\<lambda>a. process_information_default)
        (0 := \<lparr>m_process_thread_id = 7, m_process = \<lparr>m_handle = 5\<rparr>,
                m_process_thread_handle = \<lparr>m_handle = 6\<rparr>\<rparr>)"
       and a = 0 and b = 1
       and p = "\<lparr>m_process_thread_id = 7, m_process = \<lparr>m_handle = 5\<rparr>,
                 m_process_thread_handle = \<lparr>m_handle = 6\<rparr>\<rparr>"
       and n = "\<lparr>hProcess = 5, hThread = 6, dwProcessId = 99, dwThreadId = 7\<rparr>"
       and process_id = 42 and thread_id = 7 and process_handle = 5 and thread_handle = 6]
    comparisons_by_triple
    [where s = "(\<lambda>a. process_information_default)
        (0 := \<lparr>m_process_thread_id = 7, m_process = \<lparr>m_handle = 5\<rparr>,
                m_process_thread_handle = \<lparr>m_handle = 6\<rparr>\<rparr>)"
       and a = 1 and b = 2]
  by (simp add: get_native_process_thread_id_def get_native_process_handle_def
      get_native_process_thread_handle_def unique_handle_native_handle_def
      process_information_default_def unique_handle_default_def null_handle_def)

section \<open>The native view\<close>

text \<open>
  C5: let \<open>s\<close> be a native structure populated by the operating system, that is, one
  whose \<^verbatim>\<open>dwProcessId\<close> is the id the operating system reports for its process
  handle whenever that query succeeds. Constructing a process_information from \<open>s\<close>
  and calling \<^verbatim>\<open>native_handle()\<close> gives a structure with the process handle, the
  thread handle and the thread id of \<open>s\<close>, and with the process id of \<open>s\<close>, except
  that the process id is 0 when the process handle is invalid or the query fails.
\<close>

theorem native_handle_round_trip:
  assumes "\<forall>pid. GetProcessId os (hProcess s) = Some pid \<longrightarrow> pid = dwProcessId s"
  shows "hProcess (native_handle os (process_information_from_native s)) = hProcess s
       \<and> hThread (native_handle os (process_information_from_native s)) = hThread s
       \<and> dwThreadId (native_handle os (process_information_from_native s)) = dwThreadId s
       \<and> dwProcessId (native_handle os (process_information_from_native s)) =
           (if hProcess s = null_handle \<or> GetProcessId os (hProcess s) = None then 0
            else dwProcessId s)"
  using assms
  by (auto simp add: native_handle_def process_information_from_native_def value_or_def
      unique_handle_get_process_id_def unique_handle_bool_def unique_handle_native_handle_def
      split: option.splits)

theorem native_handle_round_trip_witness:
  "GetProcessId \<lparr>closed_handles = [], GetProcessId = (\<lambda>h. if h = 5 then Some 100 else None)\<rparr>
       (hProcess \<lparr>hProcess = 5, hThread = 6, dwProcessId = 100, dwThreadId = 7\<rparr>)
     = Some (dwProcessId \<lparr>hProcess = 5, hThread = 6, dwProcessId = 100, dwThreadId = 7\<rparr>)
   \<and> native_handle \<lparr>closed_handles = [], GetProcessId = (\<lambda>h. if h = 5 then Some 100 else None)\<rparr>
        (process_information_from_native
           \<lparr>hProcess = 5, hThread = 6, dwProcessId = 100, dwThreadId = 7\<rparr>)
      = \<lparr>hProcess = 5, hThread = 6, dwProcessId = 100, dwThreadId = 7\<rparr>"
proof -
  have h: "\<forall>pid. GetProcessId \<lparr>closed_handles = [], GetProcessId = (\<lambda>h. if h = 5 then Some 100 else None)\<rparr>
            (hProcess \<lparr>hProcess = 5, hThread = 6, dwProcessId = 100, dwThreadId = 7\<rparr>) = Some pid
          \<longrightarrow> pid = dwProcessId \<lparr>hProcess = 5, hThread = 6, dwProcessId = 100, dwThreadId = 7\<rparr>"
    by simp
  show ?thesis
    using h native_handle_round_trip [OF h]
    by (simp add: null_handle_def PROCESS_INFORMATION.equality)
qed

section \<open>Release and reset\<close>

text \<open>
  C3: \<^verbatim>\<open>release()\<close> followed at once by \<^verbatim>\<open>reset()\<close> of the tuple it returned gives
  back the object as it was before the release: the same thread id, raw process handle
  and raw thread handle, so that the restored object compares equal to the tuple, and
  to the earlier value under the equality of two objects. The reset returns the
  validity the object had and no handle is closed on the way. This holds for either
  order in which the arguments of the tuple are evaluated.
\<close>

theorem release_then_reset_restores:
  "(case release id_first os p of
      (deconstructed, released) \<Rightarrow>
        (case reset_deconstructed released deconstructed os of
           (result, restored, os') \<Rightarrow>
             restored = p
             \<and> operator_eq_pi_tuple restored deconstructed
             \<and> operator_eq_pi_pi (s(a := restored, b := p)) a b
             \<and> get_native_process_thread_id restored = get_native_process_thread_id p
             \<and> get_native_process_handle restored = get_native_process_handle p
             \<and> get_native_process_thread_handle restored = get_native_process_thread_handle p
             \<and> result = operator_bool p
             \<and> os' = os))"
  apply (cases p)
  apply (simp add: release_def reset_deconstructed_def operator_eq_pi_tuple_def close_def
      operator_bool_def handle_defs Let_def operator_eq_pi_pi_def split: prod.splits)
  apply (auto simp: get_native_process_thread_id_def get_native_process_handle_def
      get_native_process_thread_handle_def handle_defs)
  done

theorem release_then_reset_restores_witness:
  "release True \<lparr>closed_handles = [], GetProcessId = (\<lambda>h. if h = 5 then Some 100 else None)\<rparr>
     \<lparr>m_process_thread_id = 7, m_process = \<lparr>m_handle = 5\<rparr>,
       m_process_thread_handle = \<lparr>m_handle = 6\<rparr>\<rparr>
   = ((100, 7, 5, 6),
      \<lparr>m_process_thread_id = 0, m_process = \<lparr>m_handle = 0\<rparr>,
        m_process_thread_handle = \<lparr>m_handle = 0\<rparr>\<rparr>)
   \<and> reset_deconstructed
       \<lparr>m_process_thread_id = 0, m_process = \<lparr>m_handle = 0\<rparr>,
         m_process_thread_handle = \<lparr>m_handle = 0\<rparr>\<rparr>
       (100, 7, 5, 6)
       \<lparr>closed_handles = [], GetProcessId = (\<lambda>h. if h = 5 then Some 100 else None)\<rparr>
   = (True,
      \<lparr>m_process_thread_id = 7, m_process = \<lparr>m_handle = 5\<rparr>,
        m_process_thread_handle = \<lparr>m_handle = 6\<rparr>\<rparr>,
      \<lparr>closed_handles = [], GetProcessId = (\<lambda>h. if h = 5 then Some 100 else None)\<rparr>)"
  using release_then_reset_restores
    [where id_first = True
       and os = "\<lparr>closed_handles = [], GetProcessId = (\<lambda>h. if h = 5 then Some 100 else None)\<rparr>"
       and p = "\<lparr>m_process_thread_id = 7, m_process = \<lparr>m_handle = 5\<rparr>,
                 m_process_thread_handle = \<lparr>m_handle = 6\<rparr>\<rparr>"]
  by (simp add: release_def reset_deconstructed_def operator_eq_pi_tuple_def close_def
      operator_bool_def handle_defs unique_handle_get_process_id_def value_or_def
      null_handle_def Let_def)

text \<open>
  The result of either \<^verbatim>\<open>reset\<close>, whatever the object: nothing changes when the
  operands are equal; otherwise the incoming values are held and every valid handle
  the object owned is closed, the process handle before the thread handle.
\<close>

lemma reset_final_state:
  "reset_deconstructed p (process_id, thread_id, process_handle, thread_handle) os =
     (if operator_eq_pi_tuple p (process_id, thread_id, process_handle, thread_handle)
      then (operator_bool p, p, os)
      else
        (let adopted = \<lparr>m_process_thread_id = thread_id,
                        m_process = \<lparr>m_handle = process_handle\<rparr>,
                        m_process_thread_handle = \<lparr>m_handle = thread_handle\<rparr>\<rparr>
         in (operator_bool adopted, adopted,
             unique_handle_close (m_process_thread_handle p)
               (unique_handle_close (m_process p) os))))
   \<and> reset_native p n os =
     (if operator_eq_pi_native p n
      then (operator_bool p, p, os)
      else
        (let adopted = \<lparr>m_process_thread_id = dwThreadId n,
                        m_process = \<lparr>m_handle = hProcess n\<rparr>,
                        m_process_thread_handle = \<lparr>m_handle = hThread n\<rparr>\<rparr>
         in (operator_bool adopted, adopted,
             unique_handle_close (m_process_thread_handle p)
               (unique_handle_close (m_process p) os))))"
proof -
  obtain t hp ht where p: "p = \<lparr>m_process_thread_id = t, m_process = \<lparr>m_handle = hp\<rparr>,
      m_process_thread_handle = \<lparr>m_handle = ht\<rparr>\<rparr>"
    by (cases p, cases "m_process p", cases "m_process_thread_handle p") auto
  have tuple: "reset_deconstructed p (process_id, thread_id, process_handle, thread_handle) os =
     (if operator_eq_pi_tuple p (process_id, thread_id, process_handle, thread_handle)
      then (operator_bool p, p, os)
      else
        (let adopted = \<lparr>m_process_thread_id = thread_id,
                        m_process = \<lparr>m_handle = process_handle\<rparr>,
                        m_process_thread_handle = \<lparr>m_handle = thread_handle\<rparr>\<rparr>
         in (operator_bool adopted, adopted,
             unique_handle_close (m_process_thread_handle p)
               (unique_handle_close (m_process p) os))))"
    unfolding p
    by (simp add: reset_deconstructed_def close_def operator_bool_def handle_defs Let_def
        CloseHandle_def)
  have native: "reset_native p n os =
     (if operator_eq_pi_native p n
      then (operator_bool p, p, os)
      else
        (let adopted = \<lparr>m_process_thread_id = dwThreadId n,
                        m_process = \<lparr>m_handle = hProcess n\<rparr>,
                        m_process_thread_handle = \<lparr>m_handle = hThread n\<rparr>\<rparr>
         in (operator_bool adopted, adopted,
             unique_handle_close (m_process_thread_handle p)
               (unique_handle_close (m_process p) os))))"
    unfolding p
    by (simp add: reset_native_def close_def operator_bool_def handle_defs Let_def
        CloseHandle_def)
  from tuple native show ?thesis by (rule conjI)
qed

lemma reset_native_trace_shape:
  "reset_native_trace p n os =
     (if operator_eq_pi_native p n then [(p, os)]
      else if operator_bool p then
        (let os1 = os\<lparr>closed_handles := closed_handles os @
                      [get_native_process_handle p, get_native_process_thread_handle p]\<rparr>
         in [(p, os),
             (\<lparr>m_process_thread_id = 0, m_process = \<lparr>m_handle = null_handle\<rparr>,
               m_process_thread_handle = \<lparr>m_handle = null_handle\<rparr>\<rparr>, os1),
             (\<lparr>m_process_thread_id = dwThreadId n, m_process = \<lparr>m_handle = null_handle\<rparr>,
               m_process_thread_handle = \<lparr>m_handle = null_handle\<rparr>\<rparr>, os1),
             (\<lparr>m_process_thread_id = dwThreadId n, m_process = \<lparr>m_handle = hProcess n\<rparr>,
               m_process_thread_handle = \<lparr>m_handle = null_handle\<rparr>\<rparr>, os1),
             (\<lparr>m_process_thread_id = dwThreadId n, m_process = \<lparr>m_handle = hProcess n\<rparr>,
               m_process_thread_handle = \<lparr>m_handle = hThread n\<rparr>\<rparr>, os1)])
      else
        [(p, os),
         (p, os),
         (\<lparr>m_process_thread_id = dwThreadId n, m_process = m_process p,
           m_process_thread_handle = m_process_thread_handle p\<rparr>, os),
         (\<lparr>m_process_thread_id = dwThreadId n, m_process = \<lparr>m_handle = hProcess n\<rparr>,
           m_process_thread_handle = m_process_thread_handle p\<rparr>,
          unique_handle_close (m_process p) os),
         (\<lparr>m_process_thread_id = dwThreadId n, m_process = \<lparr>m_handle = hProcess n\<rparr>,
           m_process_thread_handle = \<lparr>m_handle = hThread n\<rparr>\<rparr>,
          unique_handle_close (m_process_thread_handle p)
            (unique_handle_close (m_process p) os))])"
proof -
  obtain t hp ht where p: "p = \<lparr>m_process_thread_id = t, m_process = \<lparr>m_handle = hp\<rparr>,
      m_process_thread_handle = \<lparr>m_handle = ht\<rparr>\<rparr>"
    by (cases p, cases "m_process p", cases "m_process_thread_handle p") auto
  show ?thesis
    unfolding p
    by (simp add: reset_native_trace_def close_def operator_bool_def handle_defs Let_def
        CloseHandle_def get_native_process_handle_def get_native_process_thread_handle_def)
qed

lemma reset_deconstructed_trace_shape:
  "reset_deconstructed_trace p (process_id, thread_id, process_handle, thread_handle) os =
     (if operator_eq_pi_tuple p (process_id, thread_id, process_handle, thread_handle) then [(p, os)]
      else if operator_bool p then
        (let os1 = os\<lparr>closed_handles := closed_handles os @
                      [get_native_process_handle p, get_native_process_thread_handle p]\<rparr>
         in [(p, os),
             (\<lparr>m_process_thread_id = 0, m_process = \<lparr>m_handle = null_handle\<rparr>,
               m_process_thread_handle = \<lparr>m_handle = null_handle\<rparr>\<rparr>, os1),
             (\<lparr>m_process_thread_id = thread_id, m_process = \<lparr>m_handle = null_handle\<rparr>,
               m_process_thread_handle = \<lparr>m_handle = null_handle\<rparr>\<rparr>, os1),
             (\<lparr>m_process_thread_id = thread_id, m_process = \<lparr>m_handle = process_handle\<rparr>,
               m_process_thread_handle = \<lparr>m_handle = null_handle\<rparr>\<rparr>, os1),
             (\<lparr>m_process_thread_id = thread_id, m_process = \<lparr>m_handle = process_handle\<rparr>,
               m_process_thread_handle = \<lparr>m_handle = thread_handle\<rparr>\<rparr>, os1)])
      else
        [(p, os),
         (p, os),
         (\<lparr>m_process_thread_id = thread_id, m_process = m_process p,
           m_process_thread_handle = m_process_thread_handle p\<rparr>, os),
         (\<lparr>m_process_thread_id = thread_id, m_process = \<lparr>m_handle = process_handle\<rparr>,
           m_process_thread_handle = m_process_thread_handle p\<rparr>,
          unique_handle_close (m_process p) os),
         (\<lparr>m_process_thread_id = thread_id, m_process = \<lparr>m_handle = process_handle\<rparr>,
           m_process_thread_handle = \<lparr>m_handle = thread_handle\<rparr>\<rparr>,
          unique_handle_close (m_process_thread_handle p)
            (unique_handle_close (m_process p) os))])"
proof -
  obtain t hp ht where p: "p = \<lparr>m_process_thread_id = t, m_process = \<lparr>m_handle = hp\<rparr>,
      m_process_thread_handle = \<lparr>m_handle = ht\<rparr>\<rparr>"
    by (cases p, cases "m_process p", cases "m_process_thread_handle p") auto
  show ?thesis
    unfolding p
    by (simp add: reset_deconstructed_trace_def close_def operator_bool_def handle_defs Let_def
        CloseHandle_def get_native_process_handle_def get_native_process_thread_handle_def)
qed

lemma reset_native_last:
  "reset_native p n os =
     (operator_bool (fst (last (reset_native_trace p n os))),
      last (reset_native_trace p n os))"
  by (simp add: reset_native_def reset_native_trace_def Let_def split: prod.splits)

lemma reset_deconstructed_last:
  "reset_deconstructed p d os =
     (operator_bool (fst (last (reset_deconstructed_trace p d os))),
      last (reset_deconstructed_trace p d os))"
  by (simp add: reset_deconstructed_def reset_deconstructed_trace_def Let_def split: prod.splits)

text \<open>
  C6, as stated, has \<^verbatim>\<open>reset()\<close> close the owned resources first and adopt the new
  thread id and handles only then. This fails for an object that owns a thread handle
  but no process handle, thread id 7 and thread handle 6, reset to the structure with
  process handle 8, thread handle 4 and thread id 9. The operands differ;
  \<^verbatim>\<open>close()\<close> does nothing, since \<^verbatim>\<open>operator bool()\<close> is false; the thread id 9 and
  then the process handle 8 are stored while no handle has been closed; the owned
  handle 6 is closed only by the last statement, which stores the thread handle 4.
\<close>

theorem reset_adopts_before_closing_counterexample:
  "\<not> operator_eq_pi_native
       \<lparr>m_process_thread_id = 7, m_process = \<lparr>m_handle = 0\<rparr>, m_process_thread_handle = \<lparr>m_handle = 6\<rparr>\<rparr>
       \<lparr>hProcess = 8, hThread = 4, dwProcessId = 0, dwThreadId = 9\<rparr>
   \<and> reset_native_trace
       \<lparr>m_process_thread_id = 7, m_process = \<lparr>m_handle = 0\<rparr>, m_process_thread_handle = \<lparr>m_handle = 6\<rparr>\<rparr>
       \<lparr>hProcess = 8, hThread = 4, dwProcessId = 0, dwThreadId = 9\<rparr>
       \<lparr>closed_handles = [], GetProcessId = (\<lambda>h. None)\<rparr>
     = [(\<lparr>m_process_thread_id = 7, m_process = \<lparr>m_handle = 0\<rparr>, m_process_thread_handle = \<lparr>m_handle = 6\<rparr>\<rparr>,
         \<lparr>closed_handles = [], GetProcessId = (\<lambda>h. None)\<rparr>),
        (\<lparr>m_process_thread_id = 7, m_process = \<lparr>m_handle = 0\<rparr>, m_process_thread_handle = \<lparr>m_handle = 6\<rparr>\<rparr>,
         \<lparr>closed_handles = [], GetProcessId = (\<lambda>h. None)\<rparr>),
        (\<lparr>m_process_thread_id = 9, m_process = \<lparr>m_handle = 0\<rparr>, m_process_thread_handle = \<lparr>m_handle = 6\<rparr>\<rparr>,
         \<lparr>closed_handles = [], GetProcessId = (\<lambda>h. None)\<rparr>),
        (\<lparr>m_process_thread_id = 9, m_process = \<lparr>m_handle = 8\<rparr>, m_process_thread_handle = \<lparr>m_handle = 6\<rparr>\<rparr>,
         \<lparr>closed_handles = [], GetProcessId = (\<lambda>h. None)\<rparr>),
        (\<lparr>m_process_thread_id = 9, m_process = \<lparr>m_handle = 8\<rparr>, m_process_thread_handle = \<lparr>m_handle = 4\<rparr>\<rparr>,
         \<lparr>closed_handles = [6], GetProcessId = (\<lambda>h. None)\<rparr>)]
   \<and> reset_native
       \<lparr>m_process_thread_id = 7, m_process = \<lparr>m_handle = 0\<rparr>, m_process_thread_handle = \<lparr>m_handle = 6\<rparr>\<rparr>
       \<lparr>hProcess = 8, hThread = 4, dwProcessId = 0, dwThreadId = 9\<rparr>
       \<lparr>closed_handles = [], GetProcessId = (\<lambda>h. None)\<rparr>
     = (True,
        \<lparr>m_process_thread_id = 9, m_process = \<lparr>m_handle = 8\<rparr>, m_process_thread_handle = \<lparr>m_handle = 4\<rparr>\<rparr>,
        \<lparr>closed_handles = [6], GetProcessId = (\<lambda>h. None)\<rparr>)"
  by (simp add: reset_native_trace_def reset_native_def operator_eq_pi_native_def close_def
      operator_bool_def handle_defs CloseHandle_def null_handle_def Let_def)

text \<open>
  C6, amended: for a decomposed tuple and for a native structure alike,
  \<^verbatim>\<open>reset()\<close> leaves the object and the operating system as they are and returns the
  current \<^verbatim>\<open>operator bool()\<close> when the object equals the incoming value (same thread
  id and same raw handles). Otherwise it ends holding the incoming thread id and
  handles, with every valid handle it owned closed once, the process handle before
  the thread handle, and returns \<^verbatim>\<open>operator bool()\<close> of the adopted state. If
  \<^verbatim>\<open>operator bool()\<close> was true, \<^verbatim>\<open>close()\<close> closes both handles and zeroes the
  thread id before anything is adopted. If it was false, \<^verbatim>\<open>close()\<close> does nothing,
  the incoming thread id is stored first, and a handle that is still valid is closed
  by the very statement that stores the incoming handle in its member.
\<close>

theorem reset_closes_first_only_when_valid:
  "reset_native_trace p n os =
     (if operator_eq_pi_native p n then [(p, os)]
      else if operator_bool p then
        (let os1 = os\<lparr>closed_handles := closed_handles os @
                      [get_native_process_handle p, get_native_process_thread_handle p]\<rparr>
         in [(p, os),
             (\<lparr>m_process_thread_id = 0, m_process = \<lparr>m_handle = null_handle\<rparr>,
               m_process_thread_handle = \<lparr>m_handle = null_handle\<rparr>\<rparr>, os1),
             (\<lparr>m_process_thread_id = dwThreadId n, m_process = \<lparr>m_handle = null_handle\<rparr>,
               m_process_thread_handle = \<lparr>m_handle = null_handle\<rparr>\<rparr>, os1),
             (\<lparr>m_process_thread_id = dwThreadId n, m_process = \<lparr>m_handle = hProcess n\<rparr>,
               m_process_thread_handle = \<lparr>m_handle = null_handle\<rparr>\<rparr>, os1),
             (\<lparr>m_process_thread_id = dwThreadId n, m_process = \<lparr>m_handle = hProcess n\<rparr>,
               m_process_thread_handle = \<lparr>m_handle = hThread n\<rparr>\<rparr>, os1)])
      else
        [(p, os),
         (p, os),
         (\<lparr>m_process_thread_id = dwThreadId n, m_process = m_process p,
           m_process_thread_handle = m_process_thread_handle p\<rparr>, os),
         (\<lparr>m_process_thread_id = dwThreadId n, m_process = \<lparr>m_handle = hProcess n\<rparr>,
           m_process_thread_handle = m_process_thread_handle p\<rparr>,
          unique_handle_close (m_process p) os),
         (\<lparr>m_process_thread_id = dwThreadId n, m_process = \<lparr>m_handle = hProcess n\<rparr>,
           m_process_thread_handle = \<lparr>m_handle = hThread n\<rparr>\<rparr>,
          unique_handle_close (m_process_thread_handle p)
            (unique_handle_close (m_process p) os))])
   \<and> reset_deconstructed_trace p (process_id, thread_id, process_handle, thread_handle) os =
     (if operator_eq_pi_tuple p (process_id, thread_id, process_handle, thread_handle) then [(p, os)]
      else if operator_bool p then
        (let os1 = os\<lparr>closed_handles := closed_handles os @
                      [get_native_process_handle p, get_native_process_thread_handle p]\<rparr>
         in [(p, os),
             (\<lparr>m_process_thread_id = 0, m_process = \<lparr>m_handle = null_handle\<rparr>,
               m_process_thread_handle = \<lparr>m_handle = null_handle\<rparr>\<rparr>, os1),
             (\<lparr>m_process_thread_id = thread_id, m_process = \<lparr>m_handle = null_handle\<rparr>,
               m_process_thread_handle = \<lparr>m_handle = null_handle\<rparr>\<rparr>, os1),
             (\<lparr>m_process_thread_id = thread_id, m_process = \<lparr>m_handle = process_handle\<rparr>,
               m_process_thread_handle = \<lparr>m_handle = null_handle\<rparr>\<rparr>, os1),
             (\<lparr>m_process_thread_id = thread_id, m_process = \<lparr>m_handle = process_handle\<rparr>,
               m_process_thread_handle = \<lparr>m_handle = thread_handle\<rparr>\<rparr>, os1)])
      else
        [(p, os),
         (p, os),
         (\<lparr>m_process_thread_id = thread_id, m_process = m_process p,
           m_process_thread_handle = m_process_thread_handle p\<rparr>, os),
         (\<lparr>m_process_thread_id = thread_id, m_process = \<lparr>m_handle = process_handle\<rparr>,
           m_process_thread_handle = m_process_thread_handle p\<rparr>,
          unique_handle_close (m_process p) os),
         (\<lparr>m_process_thread_id = thread_id, m_process = \<lparr>m_handle = process_handle\<rparr>,
           m_process_thread_handle = \<lparr>m_handle = thread_handle\<rparr>\<rparr>,
          unique_handle_close (m_process_thread_handle p)
            (unique_handle_close (m_process p) os))])
   \<and> reset_native p n os =
     (operator_bool (fst (last (reset_native_trace p n os))),
      last (reset_native_trace p n os))
   \<and> reset_deconstructed p (process_id, thread_id, process_handle, thread_handle) os =
     (operator_bool
        (fst (last (reset_deconstructed_trace p (process_id, thread_id, process_handle, thread_handle) os))),
      last (reset_deconstructed_trace p (process_id, thread_id, process_handle, thread_handle) os))"
  using reset_native_trace_shape [of p n os]
    reset_deconstructed_trace_shape [of p process_id thread_id process_handle thread_handle os]
    reset_native_last [of p n os]
    reset_deconstructed_last [of p "(process_id, thread_id, process_handle, thread_handle)" os]
  by (intro conjI) assumption+

theorem reset_closes_first_only_when_valid_witness:
  "reset_native_trace
       \<lparr>m_process_thread_id = 7, m_process = \<lparr>m_handle = 5\<rparr>, m_process_thread_handle = \<lparr>m_handle = 6\<rparr>\<rparr>
       \<lparr>hProcess = 8, hThread = 4, dwProcessId = 0, dwThreadId = 9\<rparr>
       \<lparr>closed_handles = [], GetProcessId = (\<lambda>h. None)\<rparr>
     = [(\<lparr>m_process_thread_id = 7, m_process = \<lparr>m_handle = 5\<rparr>, m_process_thread_handle = \<lparr>m_handle = 6\<rparr>\<rparr>,
         \<lparr>closed_handles = [], GetProcessId = (\<lambda>h. None)\<rparr>),
        (\<lparr>m_process_thread_id = 0, m_process = \<lparr>m_handle = 0\<rparr>, m_process_thread_handle = \<lparr>m_handle = 0\<rparr>\<rparr>,
         \<lparr>closed_handles = [5, 6], GetProcessId = (\<lambda>h. None)\<rparr>),
        (\<lparr>m_process_thread_id = 9, m_process = \<lparr>m_handle = 0\<rparr>, m_process_thread_handle = \<lparr>m_handle = 0\<rparr>\<rparr>,
         \<lparr>closed_handles = [5, 6], GetProcessId = (\<lambda>h. None)\<rparr>),
        (\<lparr>m_process_thread_id = 9, m_process = \<lparr>m_handle = 8\<rparr>, m_process_thread_handle = \<lparr>m_handle = 0\<rparr>\<rparr>,
         \<lparr>closed_handles = [5, 6], GetProcessId = (\<lambda>h. None)\<rparr>),
        (\<lparr>m_process_thread_id = 9, m_process = \<lparr>m_handle = 8\<rparr>, m_process_thread_handle = \<lparr>m_handle = 4\<rparr>\<rparr>,
         \<lparr>closed_handles = [5, 6], GetProcessId = (\<lambda>h. None)\<rparr>)]
   \<and> reset_native
       \<lparr>m_process_thread_id = 7, m_process = \<lparr>m_handle = 5\<rparr>, m_process_thread_handle = \<lparr>m_handle = 6\<rparr>\<rparr>
       \<lparr>hProcess = 8, hThread = 4, dwProcessId = 0, dwThreadId = 9\<rparr>
       \<lparr>closed_handles = [], GetProcessId = (\<lambda>h. None)\<rparr>
     = (True,
        \<lparr>m_process_thread_id = 9, m_process = \<lparr>m_handle = 8\<rparr>, m_process_thread_handle = \<lparr>m_handle = 4\<rparr>\<rparr>,
        \<lparr>closed_handles = [5, 6], GetProcessId = (\<lambda>h. None)\<rparr>)
   \<and> reset_deconstructed
       \<lparr>m_process_thread_id = 7, m_process = \<lparr>m_handle = 5\<rparr>, m_process_thread_handle = \<lparr>m_handle = 6\<rparr>\<rparr>
       (100, 7, 5, 6)
       \<lparr>closed_handles = [], GetProcessId = (\<lambda>h. None)\<rparr>
     = (True,
        \<lparr>m_process_thread_id = 7, m_process = \<lparr>m_handle = 5\<rparr>, m_process_thread_handle = \<lparr>m_handle = 6\<rparr>\<rparr>,
        \<lparr>closed_handles = [], GetProcessId = (\<lambda>h. None)\<rparr>)"
  using reset_closes_first_only_when_valid
    [where p = "\<lparr>m_process_thread_id = 7, m_process = \<lparr>m_handle = 5\<rparr>, m_process_thread_handle = \<lparr>m_handle = 6\<rparr>\<rparr>"
       and n = "\<lparr>hProcess = 8, hThread = 4, dwProcessId = 0, dwThreadId = 9\<rparr>"
       and process_id = 100 and thread_id = 7 and process_handle = 5 and thread_handle = 6
       and os = "\<lparr>closed_handles = [], GetProcessId = (\<lambda>h. None)\<rparr>"]
  by (simp add: operator_eq_pi_tuple_def operator_eq_pi_native_def operator_bool_def
      handle_defs CloseHandle_def null_handle_def Let_def get_native_process_handle_def
      get_native_process_thread_handle_def)

section \<open>Move assignment\<close>

lemma operator_eq_pi_pi_iff: "operator_eq_pi_pi s a b = (a = b \<or> s a = s b)"
proof -
  have "\<And>p q::process_information. (p = q) =
      (m_process_thread_id p = m_process_thread_id q \<and>
       m_handle (m_process p) = m_handle (m_process q) \<and>
       m_handle (m_process_thread_handle p) = m_handle (m_process_thread_handle q))"
    by auto
  then show ?thesis
    by (simp add: operator_eq_pi_pi_def unique_handle_eq_def)
qed

text \<open>The member-wise \<open>swap\<close> of the namespace exchanges the two objects.\<close>

lemma swap_exchanges: "swap s lhs rhs = s(lhs := s rhs, rhs := s lhs)"
  by (cases "lhs = rhs") (auto simp: swap_def Let_def fun_eq_iff)

text \<open>
  The move constructor leaves the source default-valued and the new object with the
  source's contents; it closes nothing and allocates nothing.
\<close>

lemma move_construct_objects:
  "this \<noteq> other \<Longrightarrow>
     objects (move_construct id_first m this other) =
       (objects m)(other := process_information_default, this := objects m other)"
  by (simp add: move_construct_def release_def unique_handle_release_def unique_handle_reset_def
      unique_handle_close_def Let_def unique_handle_default_def unique_handle_bool_def
      process_information_rebuild
      process_information_cleared [unfolded unique_handle_default_def])

lemma move_construct_frame:
  "system (move_construct id_first m this other) = system m
   \<and> stack_top (move_construct id_first m this other) = stack_top m"
  by (simp add: move_construct_def release_def unique_handle_release_def unique_handle_reset_def
      unique_handle_close_def Let_def unique_handle_default_def
      unique_handle_bool_def split: prod.splits)

text \<open>
  Whenever the two live objects are unequal, the call of \<^verbatim>\<open>std::swap\<close> empties
  \<open>this\<close> into a temporary and assigns again. If \<open>other\<close> is not empty, the inner
  assignment of \<open>other\<close> to \<open>this\<close> finds the two unequal again; if it is empty, that
  assignment returns and the assignment of the temporary to \<open>other\<close> finds those two
  unequal. Either way an unequal pair is assigned one level deeper, for every depth.
\<close>

lemma operator_assign_never_returns:
  "this < stack_top m \<Longrightarrow> other < stack_top m \<Longrightarrow>
   \<not> operator_eq_pi_pi (objects m) this other \<Longrightarrow>
   operator_assign fuel id_first m this other = None"
proof (induction fuel arbitrary: m this other)
  case 0
  show ?case by simp
next
  case (Suc n)
  define tmp where "tmp = stack_top m"
  define m1 where "m1 = move_construct id_first (m\<lparr>stack_top := Suc tmp\<rparr>) tmp this"
  from Suc.prems have ne: "this \<noteq> other" "objects m this \<noteq> objects m other"
    by (auto simp: operator_eq_pi_pi_iff)
  from Suc.prems have fresh: "tmp \<noteq> this" "tmp \<noteq> other"
    by (auto simp: tmp_def)
  have obj: "objects m1 = (objects m)(this := process_information_default, tmp := objects m this)"
    unfolding m1_def using fresh by (simp add: move_construct_objects)
  have top: "stack_top m1 = Suc tmp"
    unfolding m1_def by (simp add: move_construct_frame)
  have live: "this < stack_top m1" "other < stack_top m1" "tmp < stack_top m1"
    using Suc.prems by (auto simp: top tmp_def)
  have unfold: "operator_assign (Suc n) id_first m this other =
      (case operator_assign n id_first m1 this other of
         None \<Rightarrow> None
       | Some m2 \<Rightarrow>
           (case operator_assign n id_first m2 other tmp of
              None \<Rightarrow> None
            | Some m3 \<Rightarrow> Some ((destructor m3 tmp)\<lparr>stack_top := tmp\<rparr>)))"
    unfolding m1_def tmp_def using Suc.prems(3) by (simp add: Let_def)
  show ?case
  proof (cases "objects m other = process_information_default")
    case False
    then have "\<not> operator_eq_pi_pi (objects m1) this other"
      using ne fresh by (auto simp: operator_eq_pi_pi_iff obj)
    then have "operator_assign n id_first m1 this other = None"
      using live by (intro Suc.IH)
    then show ?thesis unfolding unfold by simp
  next
    case True
    then have eq1: "operator_eq_pi_pi (objects m1) this other"
      using ne fresh by (auto simp: operator_eq_pi_pi_iff obj)
    have neq2: "\<not> operator_eq_pi_pi (objects m1) other tmp"
      using True ne fresh by (auto simp: operator_eq_pi_pi_iff obj)
    show ?thesis
    proof (cases n)
      case 0
      then show ?thesis unfolding unfold by simp
    next
      case (Suc k)
      then have first: "operator_assign n id_first m1 this other = Some m1"
        using eq1 by simp
      have "operator_assign n id_first m1 other tmp = None"
        using live neq2 by (intro Suc.IH)
      then show ?thesis unfolding unfold by (simp add: first)
    qed
  qed
qed

text \<open>
  C2: move assignment returns at once, with the store and the operating system
  untouched, when the two operands are equal, in particular when they are the same
  object. When they are two live objects that are not equal, the call does not return
  at any depth of calls, so the exchange of the two objects is never reached.
\<close>

theorem move_assignment_returns_only_when_equal:
  "(operator_eq_pi_pi (objects m) this other \<longrightarrow>
      operator_assign (Suc fuel) id_first m this other = Some m)
   \<and> (this < stack_top m \<and> other < stack_top m \<and>
      \<not> operator_eq_pi_pi (objects m) this other \<longrightarrow>
      (\<forall>k. operator_assign k id_first m this other = None))"
  by (simp add: operator_assign_never_returns)

theorem move_assignment_returns_only_when_equal_witness:
  "operator_assign (Suc 0) True
     \<lparr>system = \<lparr>closed_handles = [], GetProcessId = (\<lambda>h. None)\<rparr>,
       objects = (\<lambda>a. process_information_default)
         (0 := \<lparr>m_process_thread_id = 1, m_process = \<lparr>m_handle = 5\<rparr>,
                 m_process_thread_handle = \<lparr>m_handle = 6\<rparr>\<rparr>,
          1 := \<lparr>m_process_thread_id = 2, m_process = \<lparr>m_handle = 7\<rparr>,
                 m_process_thread_handle = \<lparr>m_handle = 8\<rparr>\<rparr>),
       stack_top = 2\<rparr> 0 0
   = Some
     \<lparr>system = \<lparr>closed_handles = [], GetProcessId = (\<lambda>h. None)\<rparr>,
       objects = (\<lambda>a. process_information_default)
         (0 := \<lparr>m_process_thread_id = 1, m_process = \<lparr>m_handle = 5\<rparr>,
                 m_process_thread_handle = \<lparr>m_handle = 6\<rparr>\<rparr>,
          1 := \<lparr>m_process_thread_id = 2, m_process = \<lparr>m_handle = 7\<rparr>,
                 m_process_thread_handle = \<lparr>m_handle = 8\<rparr>\<rparr>),
       stack_top = 2\<rparr>
   \<and> operator_assign 5 True
     \<lparr>system = \<lparr>closed_handles = [], GetProcessId = (\<lambda>h. None)\<rparr>,
       objects = (\<lambda>a. process_information_default)
         (0 := \<lparr>m_process_thread_id = 1, m_process = \<lparr>m_handle = 5\<rparr>,
                 m_process_thread_handle = \<lparr>m_handle = 6\<rparr>\<rparr>,
          1 := \<lparr>m_process_thread_id = 2, m_process = \<lparr>m_handle = 7\<rparr>,
                 m_process_thread_handle = \<lparr>m_handle = 8\<rparr>\<rparr>),
       stack_top = 2\<rparr> 0 1
   = None"
proof -
  let ?m = "\<lparr>system = \<lparr>closed_handles = [], GetProcessId = (\<lambda>h. None)\<rparr>,
       objects = (\<lambda>a. process_information_default)
         (0 := \<lparr>m_process_thread_id = 1, m_process = \<lparr>m_handle = 5\<rparr>,
                 m_process_thread_handle = \<lparr>m_handle = 6\<rparr>\<rparr>,
          1 := \<lparr>m_process_thread_id = 2, m_process = \<lparr>m_handle = 7\<rparr>,
                 m_process_thread_handle = \<lparr>m_handle = 8\<rparr>\<rparr>),
       stack_top = 2\<rparr>"
  have same: "operator_eq_pi_pi (objects ?m) 0 0"
    by (simp add: operator_eq_pi_pi_def)
  have differ: "(0::nat) < stack_top ?m \<and> (1::nat) < stack_top ?m \<and>
      \<not> operator_eq_pi_pi (objects ?m) 0 1"
    by (simp add: operator_eq_pi_pi_def)
  from same differ
    move_assignment_returns_only_when_equal [where m = ?m and this = 0 and other = 0
      and fuel = 0 and id_first = True]
    move_assignment_returns_only_when_equal [where m = ?m and this = 0 and other = 1
      and id_first = True]
  show ?thesis by blast
qed

section \<open>Starting a timer\<close>

text \<open>
  C8: for every due time below zero and every period, \<^verbatim>\<open>start\<close> of a delayed
  callback and of a synchronization timer fails with the invalid-argument condition
  whose message is exactly "due_time must be greater than or equal to zero".
\<close>

theorem start_rejects_negative_due_time:
  assumes "due_time < 0"
  shows "delayed_callback_start t due_time period =
           Inl (invalid_argument ''due_time must be greater than or equal to zero'')
       \<and> synchronization_timer_start t due_time period =
           Inl (invalid_argument ''due_time must be greater than or equal to zero'')"
  using assms by (simp add: delayed_callback_start_def synchronization_timer_start_def)

theorem start_rejects_negative_due_time_witness:
  "(-50::int) < 0
   \<and> delayed_callback_start idle (-50) 100 =
       Inl (invalid_argument ''due_time must be greater than or equal to zero'')
   \<and> synchronization_timer_start idle (-50) 100 =
       Inl (invalid_argument ''due_time must be greater than or equal to zero'')"
proof -
  have h: "(-50::int) < 0" by simp
  show ?thesis
    using h start_rejects_negative_due_time [OF h, of idle 100] by simp
qed

text \<open>
  C9: for every period below zero and every due time that is zero or more,
  \<^verbatim>\<open>start\<close> of a delayed callback and of a synchronization timer fails with the
  invalid-argument condition whose message is exactly "period must be greater than
  or equal to zero".
\<close>

theorem start_rejects_negative_period:
  assumes "period < 0" and "0 \<le> due_time"
  shows "delayed_callback_start t due_time period =
           Inl (invalid_argument ''period must be greater than or equal to zero'')
       \<and> synchronization_timer_start t due_time period =
           Inl (invalid_argument ''period must be greater than or equal to zero'')"
  using assms by (simp add: delayed_callback_start_def synchronization_timer_start_def)

theorem start_rejects_negative_period_witness:
  "(-50::int) < 0 \<and> (0::int) \<le> 0
   \<and> delayed_callback_start idle 0 (-50) =
       Inl (invalid_argument ''period must be greater than or equal to zero'')
   \<and> synchronization_timer_start idle 0 (-50) =
       Inl (invalid_argument ''period must be greater than or equal to zero'')"
proof -
  have h1: "(-50::int) < 0" by simp
  have h2: "(0::int) \<le> 0" by simp
  show ?thesis
    using h1 h2 start_rejects_negative_period [OF h1 h2, of idle] by simp
qed

end
